theory Spec2Isabelle
  imports Main
begin

section \<open>JavaScript values used by the blockchain service\<close>

text \<open>
  The service (\<^verbatim>\<open>src/services/blockchainService.js\<close>) is one class,
  \<^verbatim>\<open>BlockchainService\<close>, exported as a singleton. Its methods take an optional
  network name and talk to one \<^verbatim>\<open>ethers.JsonRpcProvider\<close> per network.

  Strings are lists of code points below 256. \<^verbatim>\<open>String.prototype.toLowerCase\<close>
  maps \<^verbatim>\<open>A-Z\<close> and the Latin-1 capitals (U+00C0 to U+00DE, except the
  multiplication sign U+00D7) to the code point 32 above and leaves every other
  code point of that range alone.
\<close>

definition lower_char :: "char \<Rightarrow> char" where
  "lower_char c =
     (let n = (of_char c :: nat)
      in if (65 \<le> n \<and> n \<le> 90) \<or> (192 \<le> n \<and> n \<le> 222 \<and> n \<noteq> 215)
         then char_of (n + 32) else c)"

definition toLowerCase :: "string \<Rightarrow> string" where
  "toLowerCase s = map lower_char s"

text \<open>
  A thrown JavaScript error: the name of its class and its message. The service itself
  only ever throws \<^verbatim>\<open>new Error(...)\<close>; the runtime throws \<^verbatim>\<open>TypeError\<close>;
  an upstream call may reject with any error.
\<close>

datatype js_error = JsError (err_name: string) (message: string)

definition Error :: "string \<Rightarrow> js_error" where
  "Error msg = JsError ''Error'' msg"

definition TypeError :: "string \<Rightarrow> js_error" where
  "TypeError msg = JsError ''TypeError'' msg"

text \<open>
  The optional \<^verbatim>\<open>networkName\<close> argument: left out (\<^verbatim>\<open>undefined\<close>),
  \<^verbatim>\<open>null\<close>, or a string.
\<close>

datatype js_arg = ArgUndefined | ArgNull | ArgStr string

text \<open>What a template literal prints for the argument.\<close>

fun template_str :: "js_arg \<Rightarrow> string" where
  "template_str ArgUndefined = ''undefined''"
| "template_str ArgNull = ''null''"
| "template_str (ArgStr s) = s"

text \<open>
  The result of \<^verbatim>\<open>obj[key]\<close> on an object literal: an own property, a property
  inherited from \<^verbatim>\<open>Object.prototype\<close> (named by its key), or \<^verbatim>\<open>undefined\<close>.
  The inherited values are functions, and \<^verbatim>\<open>Object.prototype\<close> itself for
  \<^verbatim>\<open>__proto__\<close>: all of them truthy.
\<close>

datatype 'a js_prop = Undefined | Own 'a | Inherited string

definition object_prototype_keys :: "string list" where
  "object_prototype_keys =
     [''constructor'', ''__defineGetter__'', ''__defineSetter__'', ''hasOwnProperty'',
      ''__lookupGetter__'', ''__lookupSetter__'', ''isPrototypeOf'',
      ''propertyIsEnumerable'', ''toString'', ''valueOf'', ''__proto__'',
      ''toLocaleString'']"

definition get_prop :: "(string \<times> 'a) list \<Rightarrow> string \<Rightarrow> 'a js_prop" where
  "get_prop obj k =
     (case map_of obj k of
        Some v \<Rightarrow> Own v
      | None \<Rightarrow> if k \<in> set object_prototype_keys then Inherited k else Undefined)"

fun truthy :: "'a js_prop \<Rightarrow> bool" where
  "truthy Undefined = False"
| "truthy (Own v) = True"
| "truthy (Inherited k) = True"

section \<open>The registry and the connections\<close>

record network =
  name :: string
  rpcUrl :: string
  blockExplorer :: string

text \<open>
  \<^verbatim>\<open>new ethers.JsonRpcProvider(url)\<close>: a connection object. \<open>obj_id\<close> is the
  object's identity (the order of allocation in the constructor), so that two
  connections to one URL are still two objects.
\<close>

record provider =
  obj_id :: nat
  url :: string

record gateway =
  networks :: "(string \<times> network) list"
  providers :: "(string \<times> provider) list"
  defaultNetwork :: string

text \<open>\<^verbatim>\<open>process.env.X || fallback\<close>: an unset or empty variable gives the fallback.\<close>

definition env_or :: "(string \<Rightarrow> string option) \<Rightarrow> string \<Rightarrow> string \<Rightarrow> string" where
  "env_or env var fallback =
     (case env var of None \<Rightarrow> fallback | Some v \<Rightarrow> if v = [] then fallback else v)"

definition ethereum_net :: "(string \<Rightarrow> string option) \<Rightarrow> network" where
  "ethereum_net env =
     \<lparr>name = ''Ethereum Mainnet'',
      rpcUrl = env_or env ''ETHEREUM_RPC_URL''
                 ''https://mainnet.infura.io/v3/YOUR_INFURA_PROJECT_ID'',
      blockExplorer = ''https://etherscan.io''\<rparr>"

definition polygon_net :: "(string \<Rightarrow> string option) \<Rightarrow> network" where
  "polygon_net env =
     \<lparr>name = ''Polygon Mainnet'',
      rpcUrl = env_or env ''POLYGON_RPC_URL'' ''https://polygon-rpc.com'',
      blockExplorer = ''https://polygonscan.com''\<rparr>"

definition polygonMumbai_net :: "(string \<Rightarrow> string option) \<Rightarrow> network" where
  "polygonMumbai_net env =
     \<lparr>name = ''Polygon Mumbai'',
      rpcUrl = env_or env ''POLYGON_TESTNET_RPC_URL'' ''https://rpc-mumbai.maticvigil.com'',
      blockExplorer = ''https://mumbai.polygonscan.com''\<rparr>"

text \<open>The constructor: three profiles, one connection each, and the default key.\<close>

definition constructor :: "(string \<Rightarrow> string option) \<Rightarrow> gateway" where
  "constructor env =
     \<lparr>networks =
        [(''ethereum'', ethereum_net env),
         (''polygon'', polygon_net env),
         (''polygonMumbai'', polygonMumbai_net env)],
      providers =
        [(''ethereum'', \<lparr>obj_id = 0, url = rpcUrl (ethereum_net env)\<rparr>),
         (''polygon'', \<lparr>obj_id = 1, url = rpcUrl (polygon_net env)\<rparr>),
         (''polygonMumbai'', \<lparr>obj_id = 2, url = rpcUrl (polygonMumbai_net env)\<rparr>)],
      defaultNetwork = ''polygon''\<rparr>"

text \<open>
  A default parameter \<^verbatim>\<open>networkName = this.defaultNetwork\<close> replaces
  \<^verbatim>\<open>undefined\<close> only.
\<close>

fun default_param :: "gateway \<Rightarrow> js_arg \<Rightarrow> js_arg" where
  "default_param this ArgUndefined = ArgStr (defaultNetwork this)"
| "default_param this a = a"

text \<open>\<^verbatim>\<open>networkName || this.defaultNetwork\<close>: a falsy name gives the default key.\<close>

fun or_default :: "gateway \<Rightarrow> js_arg \<Rightarrow> string" where
  "or_default this (ArgStr s) = (if s = [] then defaultNetwork this else s)"
| "or_default this a = defaultNetwork this"

text \<open>
  \<^verbatim>\<open>
  getProvider(networkName = this.defaultNetwork) {
    const key = (networkName || this.defaultNetwork).toLowerCase();
    const provider = this.providers[key];
    if (!provider) throw new Error(`Network ${networkName} not supported`);
    return provider;
  }
  \<close>
\<close>

definition getProvider :: "gateway \<Rightarrow> js_arg \<Rightarrow> js_error + provider js_prop" where
  "getProvider this networkName0 =
     (let networkName = default_param this networkName0;
          key = toLowerCase (or_default this networkName);
          provider = get_prop (providers this) key
      in if \<not> truthy provider
         then Inl (Error (''Network '' @ template_str networkName @ '' not supported''))
         else Inr provider)"

section \<open>Upstream calls, time and effects\<close>

text \<open>
  Every method runs in a world: the service object itself (\<^verbatim>\<open>this\<close>), a clock,
  the upstream calls issued so far with the time each was issued at, and what was
  written to the console. A method either returns, throws (an \<^verbatim>\<open>async\<close> method
  rejects), or hangs on a promise that never settles.
\<close>

datatype rpc = GetBlockNumber | GetBalance | EstimateGas | GetFeeData | SendTransaction
  | WaitMined

record world =
  self :: gateway
  clock :: nat
  issued :: "(nat \<times> rpc) list"
  console :: "string list"

datatype 'a completion = Returns 'a | Throws js_error | Hangs

type_synonym 'a io = "world \<Rightarrow> 'a completion \<times> world"

definition ret :: "'a \<Rightarrow> 'a io" where
  "ret x w = (Returns x, w)"

definition throw :: "js_error \<Rightarrow> 'a io" where
  "throw e w = (Throws e, w)"

definition lift :: "js_error + 'a \<Rightarrow> 'a io" where
  "lift r = (case r of Inl e \<Rightarrow> throw e | Inr x \<Rightarrow> ret x)"

definition bind_io :: "'a io \<Rightarrow> ('a \<Rightarrow> 'b io) \<Rightarrow> 'b io" where
  "bind_io m f w =
     (case m w of
        (Returns x, w') \<Rightarrow> f x w'
      | (Throws e, w') \<Rightarrow> (Throws e, w')
      | (Hangs, w') \<Rightarrow> (Hangs, w'))"

text \<open>\<^verbatim>\<open>try { m } catch (error) { h(error) }\<close>\<close>

definition try_catch :: "'a io \<Rightarrow> (js_error \<Rightarrow> 'a io) \<Rightarrow> 'a io" where
  "try_catch m h w =
     (case m w of
        (Throws e, w') \<Rightarrow> h e w'
      | (Returns x, w') \<Rightarrow> (Returns x, w')
      | (Hangs, w') \<Rightarrow> (Hangs, w'))"

text \<open>
  What the network answers to one call: nothing, ever, or an outcome after a delay.
  Calling an upstream method issues the request at once and hands back a promise that
  settles when the answer arrives; \<^verbatim>\<open>await\<close> suspends the method until then.
\<close>

datatype 'a reply = Never | After nat "js_error + 'a"

datatype 'a promise = Unsettled | SettlesAt nat "js_error + 'a"

definition call_rpc :: "rpc \<Rightarrow> 'a reply \<Rightarrow> 'a promise io" where
  "call_rpc c r w =
     (Returns (case r of Never \<Rightarrow> Unsettled | After d x \<Rightarrow> SettlesAt (clock w + d) x),
      w\<lparr>issued := issued w @ [(clock w, c)]\<rparr>)"

fun await :: "'a promise \<Rightarrow> 'a io" where
  "await Unsettled w = (Hangs, w)"
| "await (SettlesAt t (Inr v)) w = (Returns v, w\<lparr>clock := max (clock w) t\<rparr>)"
| "await (SettlesAt t (Inl e)) w = (Throws e, w\<lparr>clock := max (clock w) t\<rparr>)"

text \<open>
  \<^verbatim>\<open>Promise.all([p, q])\<close>: fulfilled when both are, rejected as soon as one is
  (the earlier rejection wins; of two at the same instant, the first of the array).
\<close>

fun promise_all2 :: "'a promise \<Rightarrow> 'b promise \<Rightarrow> ('a \<times> 'b) promise" where
  "promise_all2 (SettlesAt t1 (Inr a)) (SettlesAt t2 (Inr b)) =
     SettlesAt (max t1 t2) (Inr (a, b))"
| "promise_all2 (SettlesAt t1 (Inl e1)) (SettlesAt t2 (Inl e2)) =
     (if t1 \<le> t2 then SettlesAt t1 (Inl e1) else SettlesAt t2 (Inl e2))"
| "promise_all2 (SettlesAt t1 (Inl e1)) q = SettlesAt t1 (Inl e1)"
| "promise_all2 p (SettlesAt t2 (Inl e2)) = SettlesAt t2 (Inl e2)"
| "promise_all2 p q = Unsettled"

text \<open>
  The objects of \<^verbatim>\<open>ethers\<close> that the service passes around, and the network behind
  them. None of it is code of the service: it is a parameter of every method.
\<close>

record tx_request =
  to :: string
  "value" :: int
  data :: string

record 'a fee_fields =
  maxFeePerGas :: "'a option"
  maxPriorityFeePerGas :: "'a option"

record 'a fee_data = "'a fee_fields" +
  gasPrice :: "'a option"

text \<open>\<^verbatim>\<open>new ethers.Wallet(privateKey, provider)\<close>: the key bound to a connection.\<close>

record wallet =
  privateKey :: string
  connection :: "provider js_prop"

type_synonym receipt = string

record tx_response =
  response_hash :: string
  response_wait :: "receipt reply"

record upstream =
  getBlockNumber_reply :: "provider \<Rightarrow> nat reply"
  getBalance_reply :: "provider \<Rightarrow> string \<Rightarrow> int reply"
  estimateGas_reply :: "provider \<Rightarrow> tx_request \<Rightarrow> int reply"
  getFeeData_reply :: "provider \<Rightarrow> int fee_data reply"
  sendTransaction_reply :: "wallet \<Rightarrow> tx_request \<Rightarrow> tx_response reply"
  wallet_key_error :: "string \<Rightarrow> js_error option"

text \<open>
  \<^verbatim>\<open>provider.m(...)\<close>: a connection has the method; a value inherited from
  \<^verbatim>\<open>Object.prototype\<close> has not, and the call is a \<^verbatim>\<open>TypeError\<close>.
\<close>

fun receiver :: "string \<Rightarrow> provider js_prop \<Rightarrow> js_error + provider" where
  "receiver m (Own p) = Inr p"
| "receiver m (Inherited k) = Inl (TypeError (''provider.'' @ m @ '' is not a function''))"
| "receiver m Undefined =
     Inl (TypeError (''Cannot read properties of undefined (reading '' @ [CHR 0x27] @ m
            @ [CHR 0x27] @ '')''))"

text \<open>\<^verbatim>\<open>networkName.toLowerCase()\<close>: only a string has the method.\<close>

fun lower_name :: "js_arg \<Rightarrow> js_error + string" where
  "lower_name (ArgStr s) = Inr (toLowerCase s)"
| "lower_name ArgNull =
     Inl (TypeError (''Cannot read properties of null (reading '' @ [CHR 0x27]
            @ ''toLowerCase'' @ [CHR 0x27] @ '')''))"
| "lower_name ArgUndefined =
     Inl (TypeError (''Cannot read properties of undefined (reading '' @ [CHR 0x27]
            @ ''toLowerCase'' @ [CHR 0x27] @ '')''))"

text \<open>
  \<^verbatim>\<open>network.name\<close>, \<^verbatim>\<open>network.rpcUrl\<close>, \<^verbatim>\<open>network.blockExplorer\<close>:
  a \<^verbatim>\<open>TypeError\<close> on \<^verbatim>\<open>undefined\<close>. An inherited function has a
  \<^verbatim>\<open>name\<close> of its own (\<^verbatim>\<open>Object\<close> for the constructor) and no other of the
  three properties; \<^verbatim>\<open>Object.prototype\<close> has none. \<open>None\<close> is \<^verbatim>\<open>undefined\<close>.
\<close>

fun read_field :: "string \<Rightarrow> (network \<Rightarrow> string) \<Rightarrow> network js_prop \<Rightarrow> js_error + string option" where
  "read_field f sel (Own n) = Inr (Some (sel n))"
| "read_field f sel (Inherited k) =
     Inr (if f = ''name'' \<and> k \<noteq> ''__proto__''
          then (if k = ''constructor'' then Some ''Object'' else Some k)
          else None)"
| "read_field f sel Undefined =
     Inl (TypeError (''Cannot read properties of undefined (reading '' @ [CHR 0x27] @ f
            @ [CHR 0x27] @ '')''))"

section \<open>Numbers as strings\<close>

text \<open>\<^verbatim>\<open>BigInt.prototype.toString()\<close>: the decimal digits, a minus sign before a negative.\<close>

definition digit_char :: "nat \<Rightarrow> char" where
  "digit_char d = ''0123456789'' ! d"

fun show_nat :: "nat \<Rightarrow> string" where
  "show_nat n = (if n < 10 then [digit_char n] else show_nat (n div 10) @ [digit_char (n mod 10)])"

declare show_nat.simps [simp del]

definition show_int :: "int \<Rightarrow> string" where
  "show_int i = (if i < 0 then ''-'' @ show_nat (nat (- i)) else show_nat (nat i))"

section \<open>The methods of the service\<close>

text \<open>
  \<^verbatim>\<open>
  async getNetworkStatus(networkName = this.defaultNetwork) {
    const key = networkName.toLowerCase();
    const network = this.networks[key];
    if (!network) throw new Error(`Network ${networkName} not supported`);
    try {
      const provider = this.getProvider(networkName);
      const bn = await provider.getBlockNumber();
      return { status: 'online', network, latestBlock: bn };
    } catch (error) {
      return { status: 'error', network, error: error.message };
    }
  }
  \<close>
  A property the object literal does not have is \<open>None\<close>.
\<close>

record status_result =
  status :: string
  network :: "network js_prop"
  latestBlock :: "nat option"
  error :: "string option"

definition getNetworkStatus :: "upstream \<Rightarrow> js_arg \<Rightarrow> status_result io" where
  "getNetworkStatus u networkName0 w =
     (let this = self w; networkName = default_param this networkName0
      in bind_io (lift (lower_name networkName)) (\<lambda>key.
           let network = get_prop (networks this) key
           in if \<not> truthy network
              then throw (Error (''Network '' @ template_str networkName @ '' not supported''))
              else try_catch
                (bind_io (lift (getProvider this networkName)) (\<lambda>provider.
                 bind_io (lift (receiver ''getBlockNumber'' provider)) (\<lambda>p.
                 bind_io (call_rpc GetBlockNumber (getBlockNumber_reply u p)) (\<lambda>pending.
                 bind_io (await pending) (\<lambda>bn.
                 ret \<lparr>status = ''online'', network = network, latestBlock = Some bn,
                      error = None\<rparr>)))))
                (\<lambda>err.
                 ret \<lparr>status = ''error'', network = network, latestBlock = None,
                      error = Some (message err)\<rparr>)) w)"

text \<open>
  \<^verbatim>\<open>
  async estimateGasCost(tx, networkName = this.defaultNetwork) {
    const provider = this.getProvider(networkName);
    const gas = await provider.estimateGas(tx);
    const feeData = await provider.getFeeData();
    return {
      gas: gas.toString(),
      maxFeePerGas: feeData.maxFeePerGas?.toString() || null,
      maxPriorityFeePerGas: feeData.maxPriorityFeePerGas?.toString() || null
    };
  }
  \<close>
\<close>

record gas_cost = "string fee_fields" +
  gas :: string

definition estimateGasCost :: "upstream \<Rightarrow> tx_request \<Rightarrow> js_arg \<Rightarrow> gas_cost io" where
  "estimateGasCost u tx networkName0 w =
     (let this = self w; networkName = default_param this networkName0
      in bind_io (lift (getProvider this networkName)) (\<lambda>provider.
         bind_io (lift (receiver ''estimateGas'' provider)) (\<lambda>p.
         bind_io (call_rpc EstimateGas (estimateGas_reply u p tx)) (\<lambda>pending1.
         bind_io (await pending1) (\<lambda>g.
         bind_io (call_rpc GetFeeData (getFeeData_reply u p)) (\<lambda>pending2.
         bind_io (await pending2) (\<lambda>feeData.
         ret \<lparr>maxFeePerGas = map_option show_int (maxFeePerGas feeData),
              maxPriorityFeePerGas = map_option show_int (maxPriorityFeePerGas feeData),
              gas = show_int g\<rparr>)))))) w)"

text \<open>
  \<^verbatim>\<open>
  async getNetworkInfo(networkName = this.defaultNetwork) {
    const key = networkName.toLowerCase();
    const network = this.networks[key];
    const provider = this.getProvider(networkName);
    const [blockNumber, feeData] = await Promise.all([
      provider.getBlockNumber(),
      provider.getFeeData()
    ]);
    return { name: network.name, rpcUrl: network.rpcUrl,
             blockExplorer: network.blockExplorer, blockNumber,
             feeData: { gasPrice: ..., maxFeePerGas: ..., maxPriorityFeePerGas: ... } };
  }
  \<close>
\<close>

record network_info =
  info_name :: "string option"
  info_rpcUrl :: "string option"
  info_blockExplorer :: "string option"
  blockNumber :: nat
  feeData :: "string fee_data"

definition getNetworkInfo :: "upstream \<Rightarrow> js_arg \<Rightarrow> network_info io" where
  "getNetworkInfo u networkName0 w =
     (let this = self w; networkName = default_param this networkName0
      in bind_io (lift (lower_name networkName)) (\<lambda>key.
         let network = get_prop (networks this) key
         in bind_io (lift (getProvider this networkName)) (\<lambda>provider.
            bind_io (lift (receiver ''getBlockNumber'' provider)) (\<lambda>p.
            bind_io (call_rpc GetBlockNumber (getBlockNumber_reply u p)) (\<lambda>pending1.
            bind_io (call_rpc GetFeeData (getFeeData_reply u p)) (\<lambda>pending2.
            bind_io (await (promise_all2 pending1 pending2)) (\<lambda>(bn, fd).
            bind_io (lift (read_field ''name'' name network)) (\<lambda>n.
            bind_io (lift (read_field ''rpcUrl'' rpcUrl network)) (\<lambda>r.
            bind_io (lift (read_field ''blockExplorer'' blockExplorer network)) (\<lambda>b.
            ret \<lparr>info_name = n, info_rpcUrl = r, info_blockExplorer = b, blockNumber = bn,
                 feeData =
                   \<lparr>maxFeePerGas = map_option show_int (maxFeePerGas fd),
                    maxPriorityFeePerGas = map_option show_int (maxPriorityFeePerGas fd),
                    gasPrice = map_option show_int (gasPrice fd)\<rparr>\<rparr>))))))))) w)"

text \<open>
  \<^verbatim>\<open>
  createWallet(privateKey, networkName = this.defaultNetwork) {
    const provider = this.getProvider(networkName);
    return new ethers.Wallet(privateKey, provider);
  }
  \<close>
  The constructor of \<^verbatim>\<open>ethers.Wallet\<close> throws on a key it does not accept.
\<close>

definition createWallet :: "upstream \<Rightarrow> string \<Rightarrow> js_arg \<Rightarrow> wallet io" where
  "createWallet u key networkName0 w =
     (let this = self w; networkName = default_param this networkName0
      in bind_io (lift (getProvider this networkName)) (\<lambda>provider.
           case wallet_key_error u key of
             Some e \<Rightarrow> throw e
           | None \<Rightarrow> ret \<lparr>privateKey = key, connection = provider\<rparr>) w)"

text \<open>
  \<^verbatim>\<open>
  async sendTransaction(tx, privateKey, networkName = this.defaultNetwork) {
    const wallet = this.createWallet(privateKey, networkName);
    const txResponse = await wallet.sendTransaction(tx);
    return { hash: txResponse.hash, wait: async () => await txResponse.wait() };
  }
  \<close>
  The handle's \<open>wait\<close> is a closure: a method of its own, run only when the caller
  calls it.
\<close>

record tx_handle =
  hash :: string
  wait :: "receipt io"

definition sendTransaction :: "upstream \<Rightarrow> tx_request \<Rightarrow> string \<Rightarrow> js_arg \<Rightarrow> tx_handle io" where
  "sendTransaction u tx key networkName =
     bind_io (createWallet u key networkName) (\<lambda>wallet.
     bind_io (call_rpc SendTransaction (sendTransaction_reply u wallet tx)) (\<lambda>pending.
     bind_io (await pending) (\<lambda>txResponse.
     ret \<lparr>hash = response_hash txResponse,
          wait = bind_io (call_rpc WaitMined (response_wait txResponse)) await\<rparr>)))"

text \<open>
  The five stubs: each body is one \<^verbatim>\<open>throw new Error(...)\<close>, whatever the
  arguments.
\<close>

definition mintCropNFT :: "'c \<Rightarrow> string \<Rightarrow> js_arg \<Rightarrow> unit io" where
  "mintCropNFT crop recipient networkName =
     throw (Error ''mintCropNFT not implemented: deploy and wire NFT contract'')"

definition getNFTDetails :: "string \<Rightarrow> js_arg \<Rightarrow> unit io" where
  "getNFTDetails tokenId networkName =
     throw (Error ''getNFTDetails not implemented: deploy and wire NFT contract'')"

definition transferNFT :: "string \<Rightarrow> string \<Rightarrow> string \<Rightarrow> js_arg \<Rightarrow> unit io" where
  "transferNFT fromAddress toAddress tokenId networkName =
     throw (Error ''transferNFT not implemented: deploy and wire NFT contract'')"

definition createBlockchainPayment ::
    "string \<Rightarrow> string \<Rightarrow> int \<Rightarrow> string option \<Rightarrow> js_arg \<Rightarrow> unit io" where
  "createBlockchainPayment fromAddress toAddress amount description networkName =
     throw (Error ''createBlockchainPayment not implemented'')"

definition releaseBlockchainPayment :: "string \<Rightarrow> js_arg \<Rightarrow> unit io" where
  "releaseBlockchainPayment paymentId networkName =
     throw (Error ''releaseBlockchainPayment not implemented'')"

text \<open>
  Modelled from the spec: \<^verbatim>\<open>ethers.formatEther\<close> is code of the \<^verbatim>\<open>ethers\<close>
  library, which is not among the sources. The spec asks for an exact decimal string
  at the unit scale 18, never rounded, with \<^verbatim>\<open>1000000000000000000\<close> printed as
  \<^verbatim>\<open>1.0\<close>: the whole part, a point, and the 18 fraction digits without their
  trailing zeros, of which at least one digit stays.
\<close>

fun trim_zeros :: "string \<Rightarrow> string" where
  "trim_zeros s =
     (if 1 < length s \<and> last s = CHR ''0'' then trim_zeros (butlast s) else s)"

declare trim_zeros.simps [simp del]

definition pad_left :: "nat \<Rightarrow> string \<Rightarrow> string" where
  "pad_left n s = replicate (n - length s) (CHR ''0'') @ s"

definition formatEther :: "int \<Rightarrow> string" where
  "formatEther wei =
     (let negative = (if wei < 0 then ''-'' else []);
          val = nat \<bar>wei\<bar>
      in negative @ show_nat (val div 10 ^ 18) @ ''.''
           @ trim_zeros (pad_left 18 (show_nat (val mod 10 ^ 18))))"

text \<open>
  \<^verbatim>\<open>
  async getWalletBalance(address, networkName = this.defaultNetwork) {
    const provider = this.getProvider(networkName);
    const balanceWei = await provider.getBalance(address);
    const balanceEth = ethers.formatEther(balanceWei);
    return {
      address,
      network: this.networks[networkName.toLowerCase()].name,
      balanceWei: balanceWei.toString(),
      balanceEth
    };
  }
  \<close>
\<close>

record balance_result =
  address :: string
  network_name :: "string option"
  balanceWei :: string
  balanceEth :: string

definition getWalletBalance :: "upstream \<Rightarrow> string \<Rightarrow> js_arg \<Rightarrow> balance_result io" where
  "getWalletBalance u addr networkName0 w =
     (let this = self w; networkName = default_param this networkName0
      in bind_io (lift (getProvider this networkName)) (\<lambda>provider.
         bind_io (lift (receiver ''getBalance'' provider)) (\<lambda>p.
         bind_io (call_rpc GetBalance (getBalance_reply u p addr)) (\<lambda>pending.
         bind_io (await pending) (\<lambda>wei.
         let eth = formatEther wei
         in bind_io (lift (lower_name networkName)) (\<lambda>key.
            bind_io (lift (read_field ''name'' name (get_prop (networks this) key))) (\<lambda>n.
            ret \<lparr>address = addr, network_name = n, balanceWei = show_int wei,
                 balanceEth = eth\<rparr>)))))) w)"

section \<open>Reading decimal strings back\<close>

text \<open>
  What a decimal string denotes, to compare the two strings of a balance: a string of
  digits is a natural number; an optional minus sign, digits, a point and between one
  and \<open>scale\<close> digits is an amount in minor units.
\<close>

definition is_digit :: "char \<Rightarrow> bool" where
  "is_digit c = (c \<in> set ''0123456789'')"

definition digit_val :: "char \<Rightarrow> nat" where
  "digit_val c = (of_char c :: nat) - 48"

definition nat_of_digits :: "string \<Rightarrow> nat" where
  "nat_of_digits s = foldl (\<lambda>a c. 10 * a + digit_val c) 0 s"

definition read_nat :: "string \<Rightarrow> nat option" where
  "read_nat s = (if s \<noteq> [] \<and> list_all is_digit s then Some (nat_of_digits s) else None)"

definition read_int :: "string \<Rightarrow> int option" where
  "read_int s =
     (case s of
        [] \<Rightarrow> None
      | c # r \<Rightarrow> if c = CHR ''-'' then map_option (\<lambda>n. - int n) (read_nat r)
                 else map_option int (read_nat s))"

definition read_unsigned_units :: "nat \<Rightarrow> string \<Rightarrow> nat option" where
  "read_unsigned_units scale s =
     (let whole = takeWhile (\<lambda>c. c \<noteq> CHR ''.'') s;
          rest = dropWhile (\<lambda>c. c \<noteq> CHR ''.'') s
      in case rest of
           [] \<Rightarrow> None
         | dot # frac \<Rightarrow>
             (case (read_nat whole, read_nat frac) of
                (Some a, Some b) \<Rightarrow>
                  if length frac \<le> scale
                  then Some (a * 10 ^ scale + b * 10 ^ (scale - length frac))
                  else None
              | other \<Rightarrow> None))"

definition read_units :: "nat \<Rightarrow> string \<Rightarrow> int option" where
  "read_units scale s =
     (case s of
        [] \<Rightarrow> None
      | c # r \<Rightarrow> if c = CHR ''-'' then map_option (\<lambda>n. - int n) (read_unsigned_units scale r)
                 else map_option int (read_unsigned_units scale s))"

section \<open>Sample inputs\<close>

text \<open>
  The world right after \<^verbatim>\<open>module.exports = new BlockchainService()\<close>, and a mock
  network: every call answers after a fixed delay, and the confirmation of a submitted
  transaction never arrives.
\<close>

definition boot :: "(string \<Rightarrow> string option) \<Rightarrow> world" where
  "boot env = \<lparr>self = constructor env, clock = 0, issued = [], console = []\<rparr>"

definition mock :: upstream where
  "mock =
     \<lparr>getBlockNumber_reply = (\<lambda>p. After 3 (Inr 100)),
      getBalance_reply = (\<lambda>p a. After 2 (Inr 1000000000000000000)),
      estimateGas_reply = (\<lambda>p t. After 5 (Inr 21000)),
      getFeeData_reply =
        (\<lambda>p. After 7 (Inr \<lparr>maxFeePerGas = Some 30, maxPriorityFeePerGas = Some 2,
                              gasPrice = None\<rparr>)),
      sendTransaction_reply =
        (\<lambda>s t. After 4 (Inr \<lparr>response_hash = ''0xabc'', response_wait = Never\<rparr>)),
      wallet_key_error = (\<lambda>k. None)\<rparr>"

definition transfer :: tx_request where
  "transfer = \<lparr>to = ''0x01'', value = 1, data = []\<rparr>"

section \<open>Auxiliary facts\<close>

lemmas io_defs = ret_def throw_def lift_def bind_io_def try_catch_def call_rpc_def

lemmas registry_defs = constructor_def get_prop_def object_prototype_keys_def

lemma lower_polygonMumbai: "toLowerCase ''polygonMumbai'' = ''polygonmumbai''"
  by code_simp

lemma lower_Polygon: "toLowerCase ''Polygon'' = ''polygon''"
  by code_simp

lemma lower_solana: "toLowerCase ''solana'' = ''solana''"
  by code_simp

lemma lower_polygon: "toLowerCase ''polygon'' = ''polygon''"
  by code_simp

lemma lower_ethereum: "toLowerCase ''ethereum'' = ''ethereum''"
  by code_simp

lemma lower_constructor: "toLowerCase ''constructor'' = ''constructor''"
  by code_simp

text \<open>No lower-cased string holds a capital letter, so none is the key \<^verbatim>\<open>polygonMumbai\<close>.\<close>

lemma lower_char_not_capital: "(of_char (lower_char c) :: nat) \<notin> {65..90}"
  by (auto simp: lower_char_def Let_def)

lemma toLowerCase_no_M: "CHR ''M'' \<notin> set (toLowerCase k)"
proof
  assume "CHR ''M'' \<in> set (toLowerCase k)"
  then obtain c where "lower_char c = CHR ''M''"
    by (auto simp: toLowerCase_def)
  then have "(of_char (lower_char c) :: nat) = 77" by simp
  with lower_char_not_capital [of c] show False by simp
qed

lemma toLowerCase_not_polygonMumbai: "toLowerCase k \<noteq> ''polygonMumbai''"
proof
  assume "toLowerCase k = ''polygonMumbai''"
  then have "CHR ''M'' \<in> set (toLowerCase k)" by simp
  with toLowerCase_no_M show False by blast
qed

text \<open>The two keys written in lower case resolve in any letter casing.\<close>

lemma getProvider_ethereum_any_case:
  "toLowerCase k = ''ethereum'' \<Longrightarrow>
   getProvider (constructor env) (ArgStr k)
     = Inr (Own \<lparr>obj_id = 0, url = rpcUrl (ethereum_net env)\<rparr>)"
  by (auto simp: getProvider_def constructor_def get_prop_def toLowerCase_def)

lemma getProvider_polygon_any_case:
  "toLowerCase k = ''polygon'' \<Longrightarrow>
   getProvider (constructor env) (ArgStr k)
     = Inr (Own \<lparr>obj_id = 1, url = rpcUrl (polygon_net env)\<rparr>)"
  by (auto simp: getProvider_def constructor_def get_prop_def toLowerCase_def)

lemma getProvider_boot_Polygon:
  "getProvider (self (boot Map.empty)) (ArgStr ''Polygon'')
     = Inr (Own \<lparr>obj_id = 1, url = ''https://polygon-rpc.com''\<rparr>)"
  by (simp add: getProvider_def boot_def constructor_def get_prop_def lower_Polygon
        polygon_net_def env_or_def)

lemma getProvider_boot_default:
  "getProvider (self (boot Map.empty)) (default_param (self (boot Map.empty)) ArgUndefined)
     = Inr (Own \<lparr>obj_id = 1, url = ''https://polygon-rpc.com''\<rparr>)"
  by (simp add: getProvider_def boot_def constructor_def get_prop_def polygon_net_def
        env_or_def lower_polygon)

text \<open>Neither creating a wallet nor awaiting a promise writes to the service or the console.\<close>

lemma createWallet_world: "snd (createWallet u key networkName w) = w"
  by (simp add: createWallet_def io_defs Let_def split: sum.splits option.splits)

lemma await_frame:
  "self (snd (await p w)) = self w \<and> console (snd (await p w)) = console w"
proof (cases p)
  case Unsettled
  then show ?thesis by simp
next
  case (SettlesAt t r)
  then show ?thesis by (cases r) simp_all
qed

lemma sendTransaction_frame:
  "self (snd (sendTransaction u tx key networkName w)) = self w
   \<and> console (snd (sendTransaction u tx key networkName w)) = console w"
proof -
  obtain c where c: "createWallet u key networkName w = (c, w)"
    using createWallet_world [of u key networkName w]
    by (cases "createWallet u key networkName w") simp
  show ?thesis
  proof (cases c)
    case (Returns wal)
    let ?w1 = "w\<lparr>issued := issued w @ [(clock w, SendTransaction)]\<rparr>"
    let ?p = "case sendTransaction_reply u wal tx of Never \<Rightarrow> Unsettled
              | After d x \<Rightarrow> SettlesAt (clock w + d) x"
    have "snd (sendTransaction u tx key networkName w) = snd (await ?p ?w1)"
      using c Returns
      by (cases "await ?p ?w1"; cases "fst (await ?p ?w1)")
         (simp_all add: sendTransaction_def io_defs)
    with await_frame [of ?p ?w1] show ?thesis by simp
  next
    case (Throws e)
    with c show ?thesis by (simp add: sendTransaction_def io_defs)
  next
    case Hangs
    with c show ?thesis by (simp add: sendTransaction_def io_defs)
  qed
qed

section \<open>Resolving a connection\<close>

text \<open>
  C1 says that every key of the registry resolves in every letter casing, to the
  connection of the key as registered. The registry spells one key
  \<^verbatim>\<open>polygonMumbai\<close>, and \<^verbatim>\<open>getProvider\<close> lower-cases the name before the
  lookup: the connection is in the table, and the name as registered is answered with
  \<^verbatim>\<open>Network polygonMumbai not supported\<close>.
\<close>

theorem getProvider_polygonMumbai_unresolved:
  "map_of (providers (constructor env)) ''polygonMumbai''
     = Some \<lparr>obj_id = 2, url = rpcUrl (polygonMumbai_net env)\<rparr>
   \<and> getProvider (constructor env) (ArgStr ''polygonMumbai'')
     = Inl (Error ''Network polygonMumbai not supported'')"
  by (simp add: getProvider_def registry_defs lower_polygonMumbai)

text \<open>
  C8 says that every key matching no registered profile fails. The empty string matches
  none, and \<^verbatim>\<open>networkName || this.defaultNetwork\<close> takes it for a missing name:
  it resolves to the connection of the default network.
\<close>

theorem getProvider_empty_key_counterexample:
  "map_of (networks (constructor Map.empty)) [] = None
   \<and> getProvider (constructor Map.empty) (ArgStr [])
     = Inr (Own \<lparr>obj_id = 1, url = ''https://polygon-rpc.com''\<rparr>)"
  using getProvider_boot_default
  by (simp add: boot_def constructor_def getProvider_def get_prop_def lower_polygon)

text \<open>
  The lookup \<^verbatim>\<open>this.providers[key]\<close> also finds what an object literal inherits:
  the key \<^verbatim>\<open>constructor\<close> is answered with the function \<^verbatim>\<open>Object\<close>, which is
  truthy and is returned as if it were a connection.
\<close>

lemma getProvider_inherited_key:
  "getProvider (constructor env) (ArgStr ''constructor'') = Inr (Inherited ''constructor'')"
  by (simp add: getProvider_def registry_defs lower_constructor)

text \<open>
  C8 as amended: a key that is not empty, that in lower case is no registered key in
  lower case, and that in lower case names no property of \<^verbatim>\<open>Object.prototype\<close>,
  fails with \<^verbatim>\<open>Network <key> not supported\<close>, the key printed as it was given.
  The empty key resolves as a missing one does. Whatever the service object and the
  name, \<^verbatim>\<open>getProvider\<close> never returns \<^verbatim>\<open>undefined\<close>.
\<close>

theorem getProvider_unregistered:
  assumes "k \<noteq> []"
      and "toLowerCase k \<notin> set (map (toLowerCase \<circ> fst) (networks (constructor env)))"
      and "toLowerCase k \<notin> set object_prototype_keys"
  shows "getProvider (constructor env) (ArgStr k)
           = Inl (Error (''Network '' @ k @ '' not supported''))
       \<and> getProvider (constructor env) (ArgStr []) = getProvider (constructor env) ArgUndefined
       \<and> getProvider this networkName \<noteq> Inr Undefined"
proof -
  from assms(2) have "toLowerCase k \<noteq> ''ethereum''" "toLowerCase k \<noteq> ''polygon''"
    by (simp_all add: constructor_def lower_ethereum lower_polygon)
  with assms(1,3) toLowerCase_not_polygonMumbai [of k]
  have "getProvider (constructor env) (ArgStr k)
           = Inl (Error (''Network '' @ k @ '' not supported''))"
    by (simp add: getProvider_def constructor_def get_prop_def)
  moreover have "getProvider (constructor env) (ArgStr []) = getProvider (constructor env) ArgUndefined"
    by (simp add: getProvider_def constructor_def get_prop_def lower_polygon)
  moreover have "getProvider this networkName \<noteq> Inr Undefined"
    by (auto simp: getProvider_def Let_def)
  ultimately show ?thesis by simp
qed

theorem getProvider_unregistered_witness:
  "getProvider (constructor Map.empty) (ArgStr ''solana'')
     = Inl (Error ''Network solana not supported'')"
proof -
  have h1: "''solana'' \<noteq> []" by simp
  have h2: "toLowerCase ''solana''
              \<notin> set (map (toLowerCase \<circ> fst) (networks (constructor Map.empty)))"
    by (simp add: constructor_def lower_solana lower_polygonMumbai lower_ethereum
          lower_polygon)
  have h3: "toLowerCase ''solana'' \<notin> set object_prototype_keys"
    by (simp add: lower_solana object_prototype_keys_def)
  show ?thesis
    using getProvider_unregistered [OF h1 h2 h3] by simp
qed

section \<open>Status checks\<close>

text \<open>
  Where the profile and the connection are found, \<^verbatim>\<open>getNetworkStatus\<close> answers
  \<^verbatim>\<open>online\<close> with the block height when the call is fulfilled, and
  \<^verbatim>\<open>error\<close> with the message of the rejection when it is rejected.
\<close>

lemma getNetworkStatus_online:
  assumes "default_param (self w) networkName = ArgStr k"
      and "get_prop (networks (self w)) (toLowerCase k) = Own n"
      and "getProvider (self w) (ArgStr k) = Inr (Own p)"
      and "getBlockNumber_reply u p = After d (Inr bn)"
  shows "getNetworkStatus u networkName w
           = (Returns \<lparr>status = ''online'', network = Own n, latestBlock = Some bn,
                       error = None\<rparr>,
              w\<lparr>issued := issued w @ [(clock w, GetBlockNumber)], clock := clock w + d\<rparr>)"
  using assms by (simp add: getNetworkStatus_def io_defs Let_def max_def)

lemma getNetworkStatus_error:
  assumes "default_param (self w) networkName = ArgStr k"
      and "get_prop (networks (self w)) (toLowerCase k) = Own n"
      and "getProvider (self w) (ArgStr k) = Inr (Own p)"
      and "getBlockNumber_reply u p = After d (Inl e)"
  shows "getNetworkStatus u networkName w
           = (Returns \<lparr>status = ''error'', network = Own n, latestBlock = None,
                       error = Some (message e)\<rparr>,
              w\<lparr>issued := issued w @ [(clock w, GetBlockNumber)], clock := clock w + d\<rparr>)"
  using assms by (simp add: getNetworkStatus_def io_defs Let_def max_def)

text \<open>
  C3 says that for every registered network \<^verbatim>\<open>getNetworkStatus\<close> answers
  \<^verbatim>\<open>online\<close> or \<^verbatim>\<open>error\<close> and never throws. For the registered network
  \<^verbatim>\<open>polygonMumbai\<close> the profile is looked up under the lower-cased name, is not
  found, and the method throws before the \<^verbatim>\<open>try\<close>, whatever the network would
  have answered.
\<close>

theorem getNetworkStatus_polygonMumbai_throws:
  "getNetworkStatus u (ArgStr ''polygonMumbai'') (w\<lparr>self := constructor env\<rparr>)
     = (Throws (Error ''Network polygonMumbai not supported''), w\<lparr>self := constructor env\<rparr>)"
  by (simp add: getNetworkStatus_def io_defs registry_defs lower_polygonMumbai)

section \<open>The stubs\<close>

text \<open>
  C4: each of the five stubs, on every input and in every world, throws an error whose
  message names the operation and says that it is not implemented, and leaves the world
  as it was: no upstream call is issued.
\<close>

theorem stubs_not_implemented:
  "mintCropNFT crop recipient networkName w
     = (Throws (Error ''mintCropNFT not implemented: deploy and wire NFT contract''), w)
   \<and> getNFTDetails tokenId networkName w
     = (Throws (Error ''getNFTDetails not implemented: deploy and wire NFT contract''), w)
   \<and> transferNFT fromAddress toAddress tokenId networkName w
     = (Throws (Error ''transferNFT not implemented: deploy and wire NFT contract''), w)
   \<and> createBlockchainPayment fromAddress toAddress amount description networkName w
     = (Throws (Error ''createBlockchainPayment not implemented''), w)
   \<and> releaseBlockchainPayment paymentId networkName w
     = (Throws (Error ''releaseBlockchainPayment not implemented''), w)"
  by (simp add: mintCropNFT_def getNFTDetails_def transferNFT_def
        createBlockchainPayment_def releaseBlockchainPayment_def throw_def)

text \<open>
  C10: where resolving the network name would fail with an error \<open>e\<close>, each stub still
  throws its own not-implemented error, which is not \<open>e\<close>: the stub never gets as far
  as the registry.
\<close>

theorem stubs_precede_resolution:
  assumes "getProvider (self w) networkName = Inl e"
  shows "mintCropNFT crop recipient networkName w
           = (Throws (Error ''mintCropNFT not implemented: deploy and wire NFT contract''), w)
       \<and> getNFTDetails tokenId networkName w
           = (Throws (Error ''getNFTDetails not implemented: deploy and wire NFT contract''), w)
       \<and> transferNFT fromAddress toAddress tokenId networkName w
           = (Throws (Error ''transferNFT not implemented: deploy and wire NFT contract''), w)
       \<and> createBlockchainPayment fromAddress toAddress amount description networkName w
           = (Throws (Error ''createBlockchainPayment not implemented''), w)
       \<and> releaseBlockchainPayment paymentId networkName w
           = (Throws (Error ''releaseBlockchainPayment not implemented''), w)
       \<and> fst (mintCropNFT crop recipient networkName w) \<noteq> Throws e
       \<and> fst (getNFTDetails tokenId networkName w) \<noteq> Throws e
       \<and> fst (transferNFT fromAddress toAddress tokenId networkName w) \<noteq> Throws e
       \<and> fst (createBlockchainPayment fromAddress toAddress amount description networkName w)
           \<noteq> Throws e
       \<and> fst (releaseBlockchainPayment paymentId networkName w) \<noteq> Throws e"
proof -
  from assms have e: "e = Error (''Network '' @ template_str (default_param (self w) networkName)
      @ '' not supported'')"
    by (auto simp: getProvider_def Let_def split: if_splits)
  show ?thesis
    by (simp add: e mintCropNFT_def getNFTDetails_def transferNFT_def
          createBlockchainPayment_def releaseBlockchainPayment_def throw_def Error_def)
qed

text \<open>The same at a network name that the registry does not know.\<close>

theorem stubs_precede_resolution_witness:
  "getProvider (self (boot Map.empty)) (ArgStr ''solana'')
     = Inl (Error ''Network solana not supported'')
   \<and> mintCropNFT () ''0x02'' (ArgStr ''solana'') (boot Map.empty)
     = (Throws (Error ''mintCropNFT not implemented: deploy and wire NFT contract''),
        boot Map.empty)
   \<and> fst (releaseBlockchainPayment ''7'' (ArgStr ''solana'') (boot Map.empty))
     \<noteq> Throws (Error ''Network solana not supported'')"
proof -
  have h: "getProvider (self (boot Map.empty)) (ArgStr ''solana'')
             = Inl (Error ''Network solana not supported'')"
    by (simp add: getProvider_def boot_def registry_defs lower_solana)
  show ?thesis
    using h stubs_precede_resolution [OF h, of "()" "''0x02''" "''1''" "''0x03''" "''0x04''" 1 None "''7''"]
    by (simp add: Error_def)
qed

section \<open>Gas estimation\<close>

text \<open>
  C5: on a network that resolves, when the network rejects the gas estimation with an
  error \<open>e\<close>, \<^verbatim>\<open>estimateGasCost\<close> fails with \<open>e\<close> itself, so with its message as
  the network gave it. The fee data is not asked for.
\<close>

theorem estimateGasCost_rejection:
  assumes "getProvider (self w) (default_param (self w) networkName) = Inr (Own p)"
      and "estimateGas_reply u p tx = After d (Inl e)"
  shows "estimateGasCost u tx networkName w
           = (Throws e, w\<lparr>issued := issued w @ [(clock w, EstimateGas)],
                          clock := clock w + d\<rparr>)"
  using assms by (simp add: estimateGasCost_def io_defs Let_def max_def)

text \<open>A mock network that answers the estimation with a revert.\<close>

theorem estimateGasCost_rejection_witness:
  "estimateGasCost
     (mock\<lparr>estimateGas_reply := \<lambda>p t. After 5 (Inl (Error ''execution reverted: paused''))\<rparr>)
     transfer (ArgStr ''Polygon'') (boot Map.empty)
   = (Throws (Error ''execution reverted: paused''),
      (boot Map.empty)\<lparr>issued := [(0, EstimateGas)], clock := 5\<rparr>)"
proof -
  let ?u = "mock\<lparr>estimateGas_reply := \<lambda>p t. After 5 (Inl (Error ''execution reverted: paused''))\<rparr>"
  let ?p = "\<lparr>obj_id = 1, url = ''https://polygon-rpc.com''\<rparr>"
  have h1: "getProvider (self (boot Map.empty))
              (default_param (self (boot Map.empty)) (ArgStr ''Polygon'')) = Inr (Own ?p)"
    using getProvider_boot_Polygon by simp
  have h2: "estimateGas_reply ?u ?p transfer = After 5 (Inl (Error ''execution reverted: paused''))"
    by (simp add: mock_def)
  show ?thesis
    using estimateGasCost_rejection [OF h1 h2] by (simp add: boot_def)
qed

section \<open>The order of upstream calls\<close>

text \<open>
  C2 says that \<^verbatim>\<open>estimateGasCost\<close> issues its two calls without waiting for
  either. With the mock network (the estimation answers after 5, the fee data after 7)
  the fee data is asked for at time 5, when the estimation has answered, and the method
  returns at 12, the sum of the two delays.
\<close>

theorem estimateGasCost_sequential_counterexample:
  "estimateGasCost mock transfer ArgUndefined (boot Map.empty)
     = (Returns \<lparr>maxFeePerGas = Some ''30'', maxPriorityFeePerGas = Some ''2'',
                 gas = ''21000''\<rparr>,
        (boot Map.empty)\<lparr>issued := [(0, EstimateGas), (5, GetFeeData)], clock := 12\<rparr>)
   \<and> map fst (issued (snd (estimateGasCost mock transfer ArgUndefined (boot Map.empty))))
     \<noteq> [0, 0]"
proof -
  have s: "show_int 30 = ''30''" "show_int 2 = ''2''" "show_int 21000 = ''21000''"
    by (simp_all add: show_int_def show_nat.simps digit_char_def)
  have "getProvider (self (boot Map.empty)) (ArgStr ''polygon'')
     = Inr (Own \<lparr>obj_id = 1, url = ''https://polygon-rpc.com''\<rparr>)"
    using getProvider_boot_default by (simp add: boot_def constructor_def)
  then have "estimateGasCost mock transfer ArgUndefined (boot Map.empty)
     = (Returns \<lparr>maxFeePerGas = Some ''30'', maxPriorityFeePerGas = Some ''2'',
                 gas = ''21000''\<rparr>,
        (boot Map.empty)\<lparr>issued := [(0, EstimateGas), (5, GetFeeData)], clock := 12\<rparr>)"
    by (simp add: estimateGasCost_def io_defs Let_def mock_def s boot_def constructor_def)
  then show ?thesis by simp
qed

text \<open>
  C2 as amended. On a network that resolves and answers every call:
  \<^verbatim>\<open>getNetworkInfo\<close> issues the block-height call and the fee-data call at the same
  instant, before it awaits either, and returns both results when the later of the two
  has answered; \<^verbatim>\<open>estimateGasCost\<close> issues the gas estimation, awaits it, issues
  the fee-data call only then, and returns both results after the sum of the two delays.
\<close>

theorem upstream_call_order:
  assumes "default_param (self w) networkName = ArgStr k"
      and "getProvider (self w) (ArgStr k) = Inr (Own p)"
      and "get_prop (networks (self w)) (toLowerCase k) = Own n"
      and "getBlockNumber_reply u p = After d1 (Inr bn)"
      and "getFeeData_reply u p = After d2 (Inr fd)"
      and "estimateGas_reply u p tx = After d3 (Inr g)"
  shows "getNetworkInfo u networkName w
           = (Returns \<lparr>info_name = Some (name n), info_rpcUrl = Some (rpcUrl n),
                       info_blockExplorer = Some (blockExplorer n), blockNumber = bn,
                       feeData =
                         \<lparr>maxFeePerGas = map_option show_int (maxFeePerGas fd),
                          maxPriorityFeePerGas = map_option show_int (maxPriorityFeePerGas fd),
                          gasPrice = map_option show_int (gasPrice fd)\<rparr>\<rparr>,
              w\<lparr>issued := issued w @ [(clock w, GetBlockNumber), (clock w, GetFeeData)],
                clock := clock w + max d1 d2\<rparr>)
       \<and> estimateGasCost u tx networkName w
           = (Returns \<lparr>maxFeePerGas = map_option show_int (maxFeePerGas fd),
                       maxPriorityFeePerGas = map_option show_int (maxPriorityFeePerGas fd),
                       gas = show_int g\<rparr>,
              w\<lparr>issued := issued w @ [(clock w, EstimateGas), (clock w + d3, GetFeeData)],
                clock := clock w + d3 + d2\<rparr>)"
proof -
  have info: "getNetworkInfo u networkName w
           = (Returns \<lparr>info_name = Some (name n), info_rpcUrl = Some (rpcUrl n),
                       info_blockExplorer = Some (blockExplorer n), blockNumber = bn,
                       feeData =
                         \<lparr>maxFeePerGas = map_option show_int (maxFeePerGas fd),
                          maxPriorityFeePerGas = map_option show_int (maxPriorityFeePerGas fd),
                          gasPrice = map_option show_int (gasPrice fd)\<rparr>\<rparr>,
              w\<lparr>issued := issued w @ [(clock w, GetBlockNumber), (clock w, GetFeeData)],
                clock := clock w + max d1 d2\<rparr>)"
    using assms by (simp add: getNetworkInfo_def io_defs Let_def)
  have gas: "estimateGasCost u tx networkName w
           = (Returns \<lparr>maxFeePerGas = map_option show_int (maxFeePerGas fd),
                       maxPriorityFeePerGas = map_option show_int (maxPriorityFeePerGas fd),
                       gas = show_int g\<rparr>,
              w\<lparr>issued := issued w @ [(clock w, EstimateGas), (clock w + d3, GetFeeData)],
                clock := clock w + d3 + d2\<rparr>)"
    using assms by (simp add: estimateGasCost_def io_defs Let_def max_def)
  from info gas show ?thesis by simp
qed

text \<open>
  With the mock network on the default network: the two calls of
  \<^verbatim>\<open>getNetworkInfo\<close> both leave at time 0 and the method returns at 7.
\<close>

theorem upstream_call_order_witness:
  "issued (snd (getNetworkInfo mock ArgUndefined (boot Map.empty)))
     = [(0, GetBlockNumber), (0, GetFeeData)]
   \<and> clock (snd (getNetworkInfo mock ArgUndefined (boot Map.empty))) = 7
   \<and> issued (snd (estimateGasCost mock transfer ArgUndefined (boot Map.empty)))
     = [(0, EstimateGas), (5, GetFeeData)]
   \<and> clock (snd (estimateGasCost mock transfer ArgUndefined (boot Map.empty))) = 12"
proof -
  let ?p = "\<lparr>obj_id = 1, url = ''https://polygon-rpc.com''\<rparr>"
  let ?fd = "\<lparr>maxFeePerGas = Some 30, maxPriorityFeePerGas = Some 2, gasPrice = None\<rparr>
               :: int fee_data"
  have h1: "default_param (self (boot Map.empty)) ArgUndefined = ArgStr ''polygon''"
    by (simp add: boot_def constructor_def)
  have h2: "getProvider (self (boot Map.empty)) (ArgStr ''polygon'') = Inr (Own ?p)"
    using getProvider_boot_default by (simp add: boot_def constructor_def)
  have h3: "get_prop (networks (self (boot Map.empty))) (toLowerCase ''polygon'')
              = Own (polygon_net Map.empty)"
    by (simp add: boot_def constructor_def get_prop_def lower_polygon)
  have h4: "getBlockNumber_reply mock ?p = After 3 (Inr 100)"
    by (simp add: mock_def)
  have h5: "getFeeData_reply mock ?p = After 7 (Inr ?fd)"
    by (simp add: mock_def)
  have h6: "estimateGas_reply mock ?p transfer = After 5 (Inr 21000)"
    by (simp add: mock_def)
  show ?thesis
    using upstream_call_order [OF h1 h2 h3 h4 h5 h6]
    by (simp add: boot_def)
qed

text \<open>When the estimation is rejected, the fee data is never asked for.\<close>

lemma estimateGasCost_no_fee_call_after_rejection:
  assumes "getProvider (self w) (default_param (self w) networkName) = Inr (Own p)"
      and "estimateGas_reply u p tx = After d (Inl e)"
  shows "issued (snd (estimateGasCost u tx networkName w)) = issued w @ [(clock w, EstimateGas)]"
  using assms by (simp add: estimateGasCost_def io_defs Let_def max_def)

section \<open>Submitting a transaction\<close>

text \<open>
  C6: on a network that resolves and with a key the wallet accepts, when the network
  accepts the submission after a delay \<open>d\<close>, \<^verbatim>\<open>sendTransaction\<close> returns at that
  moment. The handle holds the hash of the response and a \<open>wait\<close> that has not run:
  the one call issued is the submission, and what the confirmation would answer
  (\<open>response_wait r\<close>, possibly never) has no part in the result.
\<close>

theorem sendTransaction_returns_on_acceptance:
  assumes "getProvider (self w) (default_param (self w) networkName) = Inr provider"
      and "wallet_key_error u key = None"
      and "sendTransaction_reply u \<lparr>privateKey = key, connection = provider\<rparr> tx
             = After d (Inr r)"
  shows "sendTransaction u tx key networkName w
           = (Returns \<lparr>hash = response_hash r,
                       wait = bind_io (call_rpc WaitMined (response_wait r)) await\<rparr>,
              w\<lparr>issued := issued w @ [(clock w, SendTransaction)], clock := clock w + d\<rparr>)"
  using assms by (simp add: sendTransaction_def createWallet_def io_defs Let_def max_def)

text \<open>
  With the mock network, whose confirmation never arrives: the submission returns at
  time 4, and the handle's \<open>wait\<close>, once called, hangs.
\<close>

theorem sendTransaction_returns_on_acceptance_witness:
  "sendTransaction mock transfer ''0x5e'' ArgUndefined (boot Map.empty)
   = (Returns \<lparr>hash = ''0xabc'', wait = bind_io (call_rpc WaitMined Never) await\<rparr>,
      (boot Map.empty)\<lparr>issued := [(0, SendTransaction)], clock := 4\<rparr>)
   \<and> fst (bind_io (call_rpc WaitMined Never) await
            ((boot Map.empty)\<lparr>issued := [(0, SendTransaction)], clock := 4\<rparr>)) = Hangs"
proof -
  let ?p = "Own \<lparr>obj_id = 1, url = ''https://polygon-rpc.com''\<rparr>"
  let ?r = "\<lparr>response_hash = ''0xabc'', response_wait = Never\<rparr>"
  have h2: "wallet_key_error mock ''0x5e'' = None"
    by (simp add: mock_def)
  have h3: "sendTransaction_reply mock \<lparr>privateKey = ''0x5e'', connection = ?p\<rparr> transfer
              = After 4 (Inr ?r)"
    by (simp add: mock_def)
  show ?thesis
    using sendTransaction_returns_on_acceptance [OF getProvider_boot_default h2 h3]
    by (simp add: boot_def io_defs)
qed

section \<open>Signing keys\<close>

text \<open>
  C9: whatever the key, the network name and the answer of the network,
  \<^verbatim>\<open>createWallet\<close> and \<^verbatim>\<open>sendTransaction\<close> leave the service object and the
  console as they found them: the key is written to neither. \<^verbatim>\<open>createWallet\<close>
  issues no call either.
\<close>

theorem signing_key_leaves_no_state:
  "self (snd (createWallet u key networkName w)) = self w
   \<and> console (snd (createWallet u key networkName w)) = console w
   \<and> issued (snd (createWallet u key networkName w)) = issued w
   \<and> self (snd (sendTransaction u tx key networkName w)) = self w
   \<and> console (snd (sendTransaction u tx key networkName w)) = console w"
  using sendTransaction_frame [of u tx key networkName w]
  by (simp add: createWallet_world)

section \<open>Balances\<close>

text \<open>
  Printing a number and reading the string back gives the number: for the digits of a
  natural number, for a signed integer, and for the decimal string of an amount at
  scale 18.
\<close>

lemma digit_cases: "d < 10 \<Longrightarrow> d \<in> {0, 1, 2, 3, 4, 5, 6, 7, 8, 9::nat}"
  by auto

lemma digit_char_is_digit: "d < 10 \<Longrightarrow> is_digit (digit_char d)"
  using digit_cases [of d] by (auto simp: digit_char_def is_digit_def)

lemma digit_val_digit_char: "d < 10 \<Longrightarrow> digit_val (digit_char d) = d"
  using digit_cases [of d] by (auto simp: digit_char_def digit_val_def)

lemma is_digit_not_minus: "is_digit c \<Longrightarrow> c \<noteq> CHR ''-''"
  by (auto simp: is_digit_def)

lemma is_digit_not_point: "is_digit c \<Longrightarrow> c \<noteq> CHR ''.''"
  by (auto simp: is_digit_def)

lemma show_nat_nonempty: "show_nat n \<noteq> []"
  by (subst show_nat.simps) simp

lemma show_nat_digits: "list_all is_digit (show_nat n)"
proof (induction n rule: show_nat.induct)
  case (1 n)
  show ?case
  proof (cases "n < 10")
    case True
    then show ?thesis
      by (subst show_nat.simps) (simp add: digit_char_is_digit)
  next
    case False
    with 1 show ?thesis
      by (subst show_nat.simps) (simp add: digit_char_is_digit)
  qed
qed

lemma nat_of_digits_snoc: "nat_of_digits (s @ [c]) = 10 * nat_of_digits s + digit_val c"
  by (simp add: nat_of_digits_def)

lemma nat_of_digits_show_nat: "nat_of_digits (show_nat n) = n"
proof (induction n rule: show_nat.induct)
  case (1 n)
  show ?case
  proof (cases "n < 10")
    case True
    then show ?thesis
      by (subst show_nat.simps) (simp add: nat_of_digits_def digit_val_digit_char)
  next
    case False
    with 1 have "nat_of_digits (show_nat (n div 10)) = n div 10" by simp
    with False show ?thesis
      by (subst show_nat.simps) (simp add: nat_of_digits_snoc digit_val_digit_char)
  qed
qed

lemma read_nat_show_nat: "read_nat (show_nat n) = Some n"
  by (simp add: read_nat_def show_nat_nonempty show_nat_digits nat_of_digits_show_nat)

lemma read_int_show_int: "read_int (show_int i) = Some i"
proof (cases "i < 0")
  case True
  then show ?thesis
    by (simp add: read_int_def show_int_def read_nat_show_nat)
next
  case False
  obtain c r where cr: "show_nat (nat i) = c # r"
    using show_nat_nonempty [of "nat i"] by (cases "show_nat (nat i)") auto
  have "is_digit c"
    using show_nat_digits [of "nat i"] cr by simp
  then have "c \<noteq> CHR ''-''" by (rule is_digit_not_minus)
  with False cr read_nat_show_nat [of "nat i"] show ?thesis
    by (simp add: read_int_def show_int_def)
qed

lemma length_show_nat: "0 < k \<Longrightarrow> n < 10 ^ k \<Longrightarrow> length (show_nat n) \<le> k"
proof (induction n arbitrary: k rule: show_nat.induct)
  case (1 n)
  show ?case
  proof (cases "n < 10")
    case True
    with 1(2) show ?thesis
      by (subst show_nat.simps) simp
  next
    case False
    with 1(3) have "1 < k"
      by (cases "k = 1") (use 1(2) in auto)
    then obtain j where j: "k = Suc j" "0 < j"
      by (cases k) auto
    with 1(3) have "n div 10 < 10 ^ j"
      by (simp add: less_mult_imp_div_less mult.commute)
    with 1(1) [OF False j(2)] have "length (show_nat (n div 10)) \<le> j" by simp
    with False j show ?thesis
      by (subst show_nat.simps) simp
  qed
qed

lemma nat_of_digits_zeros: "nat_of_digits (replicate j (CHR ''0'') @ s) = nat_of_digits s"
proof -
  have "foldl (\<lambda>a c. 10 * a + digit_val c) 0 (replicate j (CHR ''0'')) = 0"
    by (induction j) (simp_all add: digit_val_def)
  then show ?thesis by (simp add: nat_of_digits_def)
qed

lemma is_digit_zero: "is_digit (CHR ''0'')"
  by (simp add: is_digit_def)

lemma pad_left_fraction:
  assumes "m < 10 ^ 18"
  shows "length (pad_left 18 (show_nat m)) = 18
       \<and> list_all is_digit (pad_left 18 (show_nat m))
       \<and> nat_of_digits (pad_left 18 (show_nat m)) = m"
proof -
  have "length (show_nat m) \<le> 18"
    using assms by (intro length_show_nat) simp_all
  then show ?thesis
    using show_nat_digits [of m]
    by (auto simp: pad_left_def nat_of_digits_zeros nat_of_digits_show_nat list_all_iff
          is_digit_zero)
qed

lemma trim_zeros_value:
  "s \<noteq> [] \<Longrightarrow> list_all is_digit s \<Longrightarrow>
   trim_zeros s \<noteq> [] \<and> list_all is_digit (trim_zeros s) \<and> length (trim_zeros s) \<le> length s
   \<and> nat_of_digits (trim_zeros s) * 10 ^ (length s - length (trim_zeros s)) = nat_of_digits s"
proof (induction s rule: trim_zeros.induct)
  case (1 s)
  show ?case
  proof (cases "1 < length s \<and> last s = CHR ''0''")
    case False
    then have "trim_zeros s = s"
      by (subst trim_zeros.simps) auto
    with 1(2,3) show ?thesis by simp
  next
    case True
    let ?b = "butlast s"
    from True have s: "s = ?b @ [CHR ''0'']"
      using 1(2) by (metis append_butlast_last_id)
    from True have b: "?b \<noteq> []" "list_all is_digit ?b"
      using 1(3) by (auto simp: list_all_iff dest: in_set_butlastD) (cases s; cases "tl s"; simp)+
    from True have t: "trim_zeros s = trim_zeros ?b"
      by (subst trim_zeros.simps) simp
    from 1(1) [OF True b] have ih:
      "trim_zeros ?b \<noteq> []" "list_all is_digit (trim_zeros ?b)"
      "length (trim_zeros ?b) \<le> length ?b"
      "nat_of_digits (trim_zeros ?b) * 10 ^ (length ?b - length (trim_zeros ?b)) = nat_of_digits ?b"
      by simp_all
    have len: "length s - length (trim_zeros ?b) = Suc (length ?b - length (trim_zeros ?b))"
      using ih(3) True by auto
    have "nat_of_digits s = 10 * nat_of_digits ?b"
      by (subst s) (simp add: nat_of_digits_snoc digit_val_def)
    with ih t len show ?thesis by simp
  qed
qed


lemma read_unsigned_units_format:
  "read_unsigned_units 18
     (show_nat (v div 10 ^ 18) @ ''.'' @ trim_zeros (pad_left 18 (show_nat (v mod 10 ^ 18))))
   = Some v"
proof -
  let ?a = "show_nat (v div 10 ^ 18)"
  let ?p = "pad_left 18 (show_nat (v mod 10 ^ 18))"
  let ?f = "trim_zeros ?p"
  have p: "length ?p = 18" "list_all is_digit ?p" "nat_of_digits ?p = v mod 10 ^ 18"
    using pad_left_fraction [of "v mod 10 ^ 18"] by simp_all
  then have "?p \<noteq> []" by auto
  from trim_zeros_value [OF this p(2)] p
  have f: "?f \<noteq> []" "list_all is_digit ?f" "length ?f \<le> 18"
      "nat_of_digits ?f * 10 ^ (18 - length ?f) = v mod 10 ^ 18"
    by simp_all
  have a: "\<forall>c\<in>set ?a. c \<noteq> CHR ''.''"
    using show_nat_digits [of "v div 10 ^ 18"] by (auto simp: list_all_iff is_digit_not_point)
  have tw: "takeWhile (\<lambda>c. c \<noteq> CHR ''.'') (?a @ ''.'' @ ?f) = ?a"
    using a by (simp add: takeWhile_append2)
  have dw: "dropWhile (\<lambda>c. c \<noteq> CHR ''.'') (?a @ ''.'' @ ?f) = CHR ''.'' # ?f"
    using a by (simp add: dropWhile_append2)
  have rf: "read_nat ?f = Some (nat_of_digits ?f)"
    using f by (simp add: read_nat_def)
  have "v div 10 ^ 18 * 10 ^ 18 + v mod 10 ^ 18 = v"
    by simp
  with f(3,4) rf show ?thesis
    unfolding read_unsigned_units_def Let_def tw dw
    by (simp add: read_nat_show_nat)
qed

lemma read_units_formatEther: "read_units 18 (formatEther wei) = Some wei"
proof (cases "wei < 0")
  case True
  then show ?thesis
    using read_unsigned_units_format [of "nat \<bar>wei\<bar>"]
    by (simp add: read_units_def formatEther_def Let_def)
next
  case False
  let ?v = "nat \<bar>wei\<bar>"
  obtain c r where cr: "show_nat (?v div 10 ^ 18) = c # r"
    using show_nat_nonempty [of "?v div 10 ^ 18"] by (cases "show_nat (?v div 10 ^ 18)") auto
  have "is_digit c"
    using show_nat_digits [of "?v div 10 ^ 18"] cr by simp
  then have "c \<noteq> CHR ''-''" by (rule is_digit_not_minus)
  with False cr read_unsigned_units_format [of ?v] show ?thesis
    by (simp add: read_units_def formatEther_def Let_def)
qed

text \<open>
  C7: on a network whose connection and profile are found, when the network answers
  the balance query with \<open>wei\<close>, \<^verbatim>\<open>getWalletBalance\<close> returns the address, the
  name of the network, \<open>wei\<close> printed as an integer and \<open>wei\<close> printed as a decimal at
  scale 18. Both strings denote \<open>wei\<close> exactly: read back as an integer and as an
  amount of 18 decimals, each gives \<open>wei\<close>.
\<close>

theorem getWalletBalance_consistent:
  assumes "default_param (self w) networkName = ArgStr k"
      and "getProvider (self w) (ArgStr k) = Inr (Own p)"
      and "get_prop (networks (self w)) (toLowerCase k) = Own n"
      and "getBalance_reply u p addr = After d (Inr wei)"
  shows "getWalletBalance u addr networkName w
           = (Returns \<lparr>address = addr, network_name = Some (name n),
                       balanceWei = show_int wei, balanceEth = formatEther wei\<rparr>,
              w\<lparr>issued := issued w @ [(clock w, GetBalance)], clock := clock w + d\<rparr>)
       \<and> read_int (show_int wei) = Some wei
       \<and> read_units 18 (formatEther wei) = Some wei"
  using assms
  by (simp add: getWalletBalance_def io_defs Let_def max_def read_int_show_int
        read_units_formatEther)

text \<open>
  With the mock network, whose balance is \<^verbatim>\<open>1000000000000000000\<close>: the decimal
  string is \<^verbatim>\<open>1.0\<close>.
\<close>

lemma show_int_one_ether: "show_int 1000000000000000000 = ''1000000000000000000''"
  by (simp add: show_int_def show_nat.simps digit_char_def)

lemma formatEther_one_ether: "formatEther 1000000000000000000 = ''1.0''"
proof -
  have a: "show_nat (Suc 0) = ''1''" "show_nat 0 = ''0''"
    by (simp_all add: show_nat.simps digit_char_def)
  have b: "pad_left 18 ''0'' = ''000000000000000000''"
    by (simp add: pad_left_def eval_nat_numeral)
  have c: "trim_zeros ''000000000000000000'' = ''0''"
    by (simp add: trim_zeros.simps)
  show ?thesis
    by (simp add: formatEther_def a b c)
qed

theorem getWalletBalance_consistent_witness:
  "getWalletBalance mock ''0x0a'' (ArgStr ''Polygon'') (boot Map.empty)
     = (Returns \<lparr>address = ''0x0a'', network_name = Some ''Polygon Mainnet'',
                 balanceWei = ''1000000000000000000'', balanceEth = ''1.0''\<rparr>,
        (boot Map.empty)\<lparr>issued := [(0, GetBalance)], clock := 2\<rparr>)
   \<and> read_int ''1000000000000000000'' = Some 1000000000000000000
   \<and> read_units 18 ''1.0'' = Some 1000000000000000000"
proof -
  let ?p = "\<lparr>obj_id = 1, url = ''https://polygon-rpc.com''\<rparr>"
  have h1: "default_param (self (boot Map.empty)) (ArgStr ''Polygon'') = ArgStr ''Polygon''"
    by simp
  have h3: "get_prop (networks (self (boot Map.empty))) (toLowerCase ''Polygon'')
              = Own (polygon_net Map.empty)"
    by (simp add: boot_def constructor_def get_prop_def lower_Polygon)
  have h4: "getBalance_reply mock ?p ''0x0a'' = After 2 (Inr 1000000000000000000)"
    by (simp add: mock_def)
  have "getWalletBalance mock ''0x0a'' (ArgStr ''Polygon'') (boot Map.empty)
     = (Returns \<lparr>address = ''0x0a'', network_name = Some (name (polygon_net Map.empty)),
                 balanceWei = show_int 1000000000000000000,
                 balanceEth = formatEther 1000000000000000000\<rparr>,
        (boot Map.empty)\<lparr>issued := issued (boot Map.empty) @ [(clock (boot Map.empty), GetBalance)],
                          clock := clock (boot Map.empty) + 2\<rparr>)
   \<and> read_int (show_int 1000000000000000000) = Some 1000000000000000000
   \<and> read_units 18 (formatEther 1000000000000000000) = Some 1000000000000000000"
    by (rule getWalletBalance_consistent [OF h1 getProvider_boot_Polygon h3 h4])
  then show ?thesis
    unfolding show_int_one_ether formatEther_one_ether
    by (simp add: boot_def polygon_net_def)
qed


end
